theory Spec2Isabelle
  imports Complex_Main "HOL-Library.Log_Nat"
begin

section \<open>Python values used by \<open>retrieval/gcp_index.py\<close>\<close>

text \<open>
  Exceptions are values. Only the exceptions that the code of \<open>VertexIndex\<close> can raise
  by itself (attribute access on \<open>None\<close> or on a missing attribute, a failed subscript,
  a division) and the failures of the two local collaborators that the spec names (the
  embedding model, the staging file) are branches of the model; a failure of the managed
  service propagates in the source unchanged and is not modelled.
\<close>

datatype py_error =
    AttributeError
  | KeyError
  | IndexError
  | ZeroDivisionError
  | OverflowError
  | FileNotFoundError
  | ModelError

subsection \<open>\<open>math.ceil(len(passages) / gpu_embedder_batch_size)\<close>\<close>

text \<open>
  \<open>/\<close> on two Python ints is true division: the result is the IEEE-754 double nearest to
  the exact quotient (ties to even, gradual underflow), \<open>ZeroDivisionError\<close> for a zero
  divisor and \<open>OverflowError\<close> when the rounded quotient does not fit a double. A finite
  double is represented by the rational number it denotes.
\<close>

definition round_half_even :: "rat \<Rightarrow> int" where
  "round_half_even z =
     (let f = \<lfloor>z\<rfloor>; d = z - of_int f
      in if d < 1 / 2 then f else if 1 / 2 < d then f + 1 else if even f then f else f + 1)"

text \<open>The binary exponent \<open>e\<close> of a positive quotient \<open>a / b\<close>: \<open>2^e \<le> a / b < 2^(e+1)\<close>.\<close>

definition binary_exponent :: "int \<Rightarrow> int \<Rightarrow> int" where
  "binary_exponent a b =
     (let d = bitlen a - bitlen b
      in if (2::rat) powi d \<le> of_int a / of_int b then d else d - 1)"

text \<open>The double nearest to the positive quotient \<open>a / b\<close> (53-bit significand, least
  exponent -1022, below it the subnormal grid of spacing \<open>2^-1074\<close>).\<close>

definition double_of_quotient :: "int \<Rightarrow> int \<Rightarrow> rat" where
  "double_of_quotient a b =
     (let e = max (binary_exponent a b) (- 1022);
          ulp = (2::rat) powi (e - 52)
      in of_int (round_half_even (of_int a / of_int b / ulp)) * ulp)"

definition py_truediv :: "int \<Rightarrow> int \<Rightarrow> py_error + rat" where
  "py_truediv a b =
     (if b = 0 then Inl ZeroDivisionError
      else if a = 0 then Inr 0
      else let y = double_of_quotient \<bar>a\<bar> \<bar>b\<bar>
           in if (2::rat) powi 1024 \<le> y then Inl OverflowError
              else Inr (if (a < 0) = (b < 0) then y else - y))"

definition math_ceil :: "rat \<Rightarrow> int" where
  "math_ceil x = \<lceil>x\<rceil>"

subsection \<open>Ranges, slices, sorting, \<open>str\<close>\<close>

text \<open>\<open>range(lo, hi)\<close> and \<open>range(n)\<close>.\<close>

definition py_range2 :: "int \<Rightarrow> int \<Rightarrow> int list" where
  "py_range2 lo hi = [lo..hi - 1]"

definition py_range :: "int \<Rightarrow> int list" where
  "py_range n = py_range2 0 n"

text \<open>\<open>xs[lo:hi]\<close>: a negative bound counts from the end, both bounds are clamped.\<close>

definition slice_bound :: "nat \<Rightarrow> int \<Rightarrow> nat" where
  "slice_bound n k = (if k < 0 then nat (max 0 (k + int n)) else min (nat k) n)"

definition py_slice :: "'a list \<Rightarrow> int \<Rightarrow> int \<Rightarrow> 'a list" where
  "py_slice xs lo hi =
     (let l = slice_bound (length xs) lo; h = slice_bound (length xs) hi
      in take (h - l) (drop l xs))"

text \<open>\<open>enumerate(xs)\<close>.\<close>

definition py_enumerate :: "'a list \<Rightarrow> (int \<times> 'a) list" where
  "py_enumerate xs = zip (map int [0..<length xs]) xs"

text \<open>\<open>str(n)\<close> for an int.\<close>

definition digit_char :: "nat \<Rightarrow> char" where
  "digit_char d = char_of (of_char (CHR ''0'') + d)"

fun str_nat :: "nat \<Rightarrow> string" where
  "str_nat n = (if n < 10 then [digit_char n] else str_nat (n div 10) @ [digit_char (n mod 10)])"

definition str_int :: "int \<Rightarrow> string" where
  "str_int i = (if i < 0 then CHR ''-'' # str_nat (nat (- i)) else str_nat (nat i))"

text \<open>The number that a string of decimal digits denotes.\<close>

definition decimal_value :: "string \<Rightarrow> nat" where
  "decimal_value s = foldl (\<lambda>n c. 10 * n + (of_char c - of_char (CHR ''0''))) 0 s"

subsection \<open>\<open>json.dumps\<close>\<close>

text \<open>
  The values the sink serialises: strings, lists and dicts with string keys (in
  insertion order). \<open>json.dumps\<close> with its defaults separates items by \<open>", "\<close> and key
  from value by \<open>": "\<close>, and (\<open>ensure_ascii\<close>) escapes the quote, the backslash and every
  character outside \<open>' '..'~'\<close>. A \<open>char\<close> stands for the code point of the same number,
  so the model covers the code points below 256.
\<close>

datatype json = JString string | JArray "json list" | JObject "(string \<times> json) list"

definition hex_digit :: "nat \<Rightarrow> char" where
  "hex_digit d = (if d < 10 then digit_char d else char_of (of_char (CHR ''a'') + (d - 10)))"

definition json_escape_char :: "char \<Rightarrow> string" where
  "json_escape_char c =
     (if c = CHR 0x22 then [CHR 0x5C, CHR 0x22]
      else if c = CHR 0x5C then [CHR 0x5C, CHR 0x5C]
      else if c = CHR 0x0A then [CHR 0x5C, CHR ''n'']
      else if c = CHR 0x0D then [CHR 0x5C, CHR ''r'']
      else if c = CHR 0x09 then [CHR 0x5C, CHR ''t'']
      else if c = CHR 0x08 then [CHR 0x5C, CHR ''b'']
      else if c = CHR 0x0C then [CHR 0x5C, CHR ''f'']
      else if (of_char c :: nat) < 0x20 \<or> 0x7E < (of_char c :: nat)
        then [CHR 0x5C, CHR ''u'', CHR ''0'', CHR ''0'',
              hex_digit (of_char c div 16), hex_digit (of_char c mod 16)]
      else [c])"

definition json_string :: "string \<Rightarrow> string" where
  "json_string s = [CHR 0x22] @ concat (map json_escape_char s) @ [CHR 0x22]"

fun join :: "string \<Rightarrow> string list \<Rightarrow> string" where
  "join sep [] = []"
| "join sep [x] = x"
| "join sep (x # y # ys) = x @ sep @ join sep (y # ys)"

fun json_dumps :: "json \<Rightarrow> string" where
  "json_dumps (JString s) = json_string s"
| "json_dumps (JArray xs) = ''['' @ join '', '' (map json_dumps xs) @ '']''"
| "json_dumps (JObject kvs) =
     ''{'' @ join '', '' (map (\<lambda>kv. json_string (fst kv) @ '': '' @ json_dumps (snd kv)) kvs) @ ''}''"

section \<open>The client object and its surroundings\<close>

subsection \<open>Collaborators\<close>

text \<open>
  The embedding model is supplied by the caller. \<open>hasattr(self.model, "encode_corpus")\<close>
  is whether the optional method is there; either method is called with the batch and
  \<open>batch_size\<close> and returns the embeddings of the batch (one row of components per
  passage when it behaves) or raises.
\<close>

record ('p, 'v) model =
  encode_corpus :: "('p list \<Rightarrow> int \<Rightarrow> py_error + 'v list list) option"
  encode :: "'p list \<Rightarrow> int \<Rightarrow> py_error + 'v list list"

text \<open>A candidate returned by the backend: \<open>x.id\<close> and \<open>x.distance\<close> (a finite double).\<close>

datatype neighbor = MatchNeighbor (neighbor_id: string) (distance: rat)

text \<open>
  What the module imports or calls and does not define: \<open>model_name_as_path\<close> (from
  \<open>..models\<close>), \<open>load_passages\<close> (from \<open>.index\<close>), \<open>str\<close> of an embedding component, and
  the answer of the deployed endpoint to \<open>match\<close> (endpoint display name, deployed index
  id, queries, number of neighbours).
\<close>

record ('p, 'q, 'v) env =
  model_name_as_path :: "string \<Rightarrow> string"
  load_passages :: "string list \<Rightarrow> 'p list"
  str_value :: "'v \<Rightarrow> string"
  endpoint_match :: "string \<Rightarrow> string \<Rightarrow> 'q list \<Rightarrow> int \<Rightarrow> neighbor list list"

subsection \<open>Handles, the trace of calls, the world\<close>

datatype index_handle = MatchingEngineIndex (index_display_name: string)

datatype endpoint_handle = MatchingEngineIndexEndpoint (endpoint_display_name: string)

text \<open>The calls that leave the object, in the order they are made.\<close>

datatype ('p, 'q) call =
    ListIndexes string
  | BindIndex string
  | CreateIndex string int string string string
  | LoadPassages "string list"
  | EncodeCorpus "'p list" int
  | Encode "'p list" int
  | Upload string string string
  | UpdateEmbeddings index_handle string
  | ListEndpoints string
  | BindEndpoint string
  | DeployIndex endpoint_handle index_handle string string string int int
  | Match endpoint_handle string "'q list" int

text \<open>
  The managed service is seen through the display names of its index and endpoint
  resources (a list: display names need not be unique); the local file system and the
  bucket map a path, respectively a bucket and an object name, to the text stored there.
\<close>

record ('p, 'q) world =
  remote_indexes :: "string list"
  remote_endpoints :: "string list"
  files :: "string \<rightharpoonup> string"
  bucket_objects :: "string \<times> string \<rightharpoonup> string"
  calls :: "('p, 'q) call list"

text \<open>
  The attributes of a \<open>VertexIndex\<close>. \<open>index\<close> and \<open>endpoint\<close> are the class attributes
  that start as \<open>None\<close>. \<open>doc\<close> is the attribute that \<open>search\<close> reads: the class does not
  define it and \<open>__init__\<close> does not set it, so it is absent (\<open>None\<close> here) unless a
  method assigns it.
\<close>

record ('p, 'v) client =
  index :: "index_handle option"
  endpoint :: "endpoint_handle option"
  dim :: int
  model :: "('p, 'v) model"
  index_name :: string
  endpoint_name :: string
  doc_map :: "int \<rightharpoonup> 'p"
  doc :: "(string \<rightharpoonup> 'p) option"

definition MACHINE_TYPE :: string where
  "MACHINE_TYPE = ''e2-standard-16''"

definition GCS_BUCKET_NAME :: string where
  "GCS_BUCKET_NAME = ''GCS_BUCKET_NAME''"

definition GCS_BUCKET_URI :: string where
  "GCS_BUCKET_URI = ''gs://'' @ GCS_BUCKET_NAME"

definition TMP_FILE_PATH :: string where
  "TMP_FILE_PATH = ''tmp.json''"

text \<open>The calls that create an index.\<close>

fun is_create_index :: "('p, 'q) call \<Rightarrow> bool" where
  "is_create_index (CreateIndex display_name dimensions distance_measure_type shard_size
                      index_update_method) = True"
| "is_create_index x = False"

definition log_call :: "('p, 'q) call \<Rightarrow> ('p, 'q) world \<Rightarrow> ('p, 'q) world" where
  "log_call x w = w\<lparr>calls := calls w @ [x]\<rparr>"

section \<open>The methods of \<open>VertexIndex\<close>\<close>

text \<open>
  A method takes the object and the world and returns its result, or the exception it
  raised, together with the object and the world as it left them: what was assigned or
  written before an exception stays.
\<close>

definition init ::
  "('p, 'q, 'v) env \<Rightarrow> int \<Rightarrow> string \<Rightarrow> ('p, 'v) model \<Rightarrow> ('p, 'v) client" where
  "init e dim' model_name model' =
     (let model_path = model_name_as_path e model_name
      in \<lparr>index = None, endpoint = None, dim = dim', model = model',
          index_name = ''index_'' @ model_path,
          endpoint_name = ''endpoint_'' @ model_path,
          doc_map = Map.empty, doc = None\<rparr>)"

definition index_exists ::
  "('p, 'v) client \<Rightarrow> ('p, 'q) world \<Rightarrow> nat \<times> ('p, 'q) world" where
  "index_exists c w =
     (let index_names = filter (\<lambda>n. n = index_name c) (remote_indexes w)
      in (length index_names, log_call (ListIndexes (''display_name='' @ index_name c)) w))"

definition embedding_record :: "('p, 'q, 'v) env \<Rightarrow> int \<Rightarrow> 'v list \<Rightarrow> json" where
  "embedding_record e index' embedding =
     JObject [(''id'', JString (str_int index')),
              (''embedding'', JArray (map (\<lambda>value. JString (str_value e value)) embedding))]"

definition write_embeddings_to_tmp_file ::
  "('p, 'q, 'v) env \<Rightarrow> 'v list list \<Rightarrow> int list \<Rightarrow> ('p, 'q) world \<Rightarrow> ('p, 'q) world" where
  "write_embeddings_to_tmp_file e embeddings indices w =
     (let embeddings_formatted =
            map (\<lambda>(index', embedding). json_dumps (embedding_record e index' embedding) @ [CHR 0x0A])
                (zip indices embeddings);
          old = (case files w TMP_FILE_PATH of None \<Rightarrow> [] | Some text \<Rightarrow> text)
      in w\<lparr>files := (files w)(TMP_FILE_PATH \<mapsto> old @ concat embeddings_formatted)\<rparr>)"

text \<open>
  The call of the model in the loop of \<open>_write_embeddings\<close>: \<open>encode_corpus\<close> when the
  model has it, \<open>encode\<close> otherwise. \<open>encode_batch\<close> is what the call returns,
  \<open>encode_call\<close> is the call as the trace records it.
\<close>

definition encode_batch :: "('p, 'v) client \<Rightarrow> 'p list \<Rightarrow> int \<Rightarrow> py_error + 'v list list" where
  "encode_batch c batch B =
     (case encode_corpus (model c) of
        Some f \<Rightarrow> f batch B
      | None \<Rightarrow> encode (model c) batch B)"

definition encode_call :: "('p, 'v) client \<Rightarrow> 'p list \<Rightarrow> int \<Rightarrow> ('p, 'q) call" where
  "encode_call c batch B =
     (case encode_corpus (model c) of
        Some f \<Rightarrow> EncodeCorpus batch B
      | None \<Rightarrow> Encode batch B)"

text \<open>The body of the loop of \<open>_write_embeddings\<close>, for the batch numbers still to do.\<close>

fun write_batches ::
  "('p, 'q, 'v) env \<Rightarrow> ('p, 'v) client \<Rightarrow> int \<Rightarrow> 'p list \<Rightarrow> int list \<Rightarrow> nat \<Rightarrow>
   ('p, 'q) world \<Rightarrow> (py_error + nat) \<times> ('p, 'q) world" where
  "write_batches e c B passages [] total_n w = (Inr total_n, w)"
| "write_batches e c B passages (i # rest) total_n w =
     (let indices = py_range2 (i * B) ((i + 1) * B);
          batch = py_slice passages (i * B) ((i + 1) * B);
          w1 = log_call (encode_call c batch B) w
      in case encode_batch c batch B of
           Inl err \<Rightarrow> (Inl err, w1)
         | Inr embeddings \<Rightarrow>
             write_batches e c B passages rest (total_n + length embeddings)
               (write_embeddings_to_tmp_file e embeddings indices w1))"

definition write_embeddings ::
  "('p, 'q, 'v) env \<Rightarrow> int \<Rightarrow> ('p, 'v) client \<Rightarrow> ('p, 'q) world \<Rightarrow>
   (py_error + unit) \<times> ('p, 'v) client \<times> ('p, 'q) world" where
  "write_embeddings e gpu_embedder_batch_size c w =
     (let passages = load_passages e [''corpus.jsonl''];
          w1 = log_call (LoadPassages [''corpus.jsonl'']) w;
          c1 = c\<lparr>doc_map := map_of (py_enumerate passages)\<rparr>
      in case py_truediv (int (length passages)) gpu_embedder_batch_size of
           Inl err \<Rightarrow> (Inl err, c1, w1)
         | Inr q \<Rightarrow>
             (case write_batches e c1 gpu_embedder_batch_size passages
                     (py_range (math_ceil q)) 0 w1 of
                (Inl err, w2) \<Rightarrow> (Inl err, c1, w2)
              | (Inr total_n, w2) \<Rightarrow> (Inr (), c1, w2)))"

text \<open>\<open>upload_from_filename\<close> opens the local file first, so it raises when the file is
  not there; otherwise the object of that name in the bucket is replaced.\<close>

definition upload_embedding_file ::
  "('p, 'q) world \<Rightarrow> (py_error + unit) \<times> ('p, 'q) world" where
  "upload_embedding_file w =
     (case files w TMP_FILE_PATH of
        None \<Rightarrow> (Inl FileNotFoundError, w)
      | Some text \<Rightarrow>
          (Inr (), log_call (Upload GCS_BUCKET_NAME TMP_FILE_PATH TMP_FILE_PATH)
                     (w\<lparr>bucket_objects := (bucket_objects w)((GCS_BUCKET_NAME, TMP_FILE_PATH) \<mapsto> text)\<rparr>)))"

definition create_index ::
  "('p, 'q, 'v) env \<Rightarrow> ('p, 'v) client \<Rightarrow> ('p, 'q) world \<Rightarrow>
   (py_error + unit) \<times> ('p, 'v) client \<times> ('p, 'q) world" where
  "create_index e c w =
     (let w1 = log_call (CreateIndex (index_name c) (dim c) ''DOT_PRODUCT_DISTANCE''
                           ''SHARD_SIZE_SMALL'' ''STREAM_UPDATE'')
                 (w\<lparr>remote_indexes := remote_indexes w @ [index_name c]\<rparr>);
          c1 = c\<lparr>index := Some (MatchingEngineIndex (index_name c))\<rparr>
      in case write_embeddings e 512 c1 w1 of
           (Inl err, c2, w2) \<Rightarrow> (Inl err, c2, w2)
         | (Inr u, c2, w2) \<Rightarrow>
             (case upload_embedding_file w2 of
                (Inl err, w3) \<Rightarrow> (Inl err, c2, w3)
              | (Inr u', w3) \<Rightarrow>
                  (case index c2 of
                     None \<Rightarrow> (Inl AttributeError, c2, w3)
                   | Some h \<Rightarrow> (Inr (), c2, log_call (UpdateEmbeddings h GCS_BUCKET_URI) w3))))"

definition load_index ::
  "('p, 'q, 'v) env \<Rightarrow> ('p, 'v) client \<Rightarrow> ('p, 'q) world \<Rightarrow>
   (py_error + unit) \<times> ('p, 'v) client \<times> ('p, 'q) world" where
  "load_index e c w =
     (case index_exists c w of
        (n, w1) \<Rightarrow>
          if n \<noteq> 0
          then (Inr (), c\<lparr>index := Some (MatchingEngineIndex (index_name c))\<rparr>,
                log_call (BindIndex (index_name c)) w1)
          else create_index e c w1)"

definition endpoint_exists ::
  "('p, 'v) client \<Rightarrow> ('p, 'q) world \<Rightarrow> nat \<times> ('p, 'q) world" where
  "endpoint_exists c w =
     (let endpoint_names = filter (\<lambda>n. n = endpoint_name c) (remote_endpoints w)
      in (length endpoint_names, log_call (ListEndpoints (''display_name='' @ endpoint_name c)) w))"

text \<open>
  In the branch that deploys, the message logged before the deployment reads
  \<open>self.index.display_name\<close> and \<open>self.endpoint.display_name\<close>: either raises
  \<open>AttributeError\<close> when the handle is \<open>None\<close>. \<open>deploy_index\<close> returns the endpoint it
  was called on.
\<close>

definition load_endpoint ::
  "('p, 'q, 'v) env \<Rightarrow> ('p, 'v) client \<Rightarrow> ('p, 'q) world \<Rightarrow>
   (py_error + unit) \<times> ('p, 'v) client \<times> ('p, 'q) world" where
  "load_endpoint e c w =
     (case (if index c = None then load_index e c w else (Inr (), c, w)) of
        (Inl err, c1, w1) \<Rightarrow> (Inl err, c1, w1)
      | (Inr u, c1, w1) \<Rightarrow>
          (case endpoint_exists c1 w1 of
             (n, w2) \<Rightarrow>
               if n \<noteq> 0
               then (Inr (), c1\<lparr>endpoint := Some (MatchingEngineIndexEndpoint (endpoint_name c1))\<rparr>,
                     log_call (BindEndpoint (endpoint_name c1)) w2)
               else
                 (case index c1 of
                    None \<Rightarrow> (Inl AttributeError, c1, w2)
                  | Some ih \<Rightarrow>
                      (case endpoint c1 of
                         None \<Rightarrow> (Inl AttributeError, c1, w2)
                       | Some eh \<Rightarrow>
                           (Inr (), c1\<lparr>endpoint := Some eh\<rparr>,
                            log_call (DeployIndex eh ih (index_name c1) (index_name c1)
                                        MACHINE_TYPE 1 1) w2)))))"

text \<open>\<open>sorted(xs, key=f, reverse=True)\<close>: descending, equal keys keep their order.\<close>

definition py_sorted_reverse :: "('a \<Rightarrow> rat) \<Rightarrow> 'a list \<Rightarrow> 'a list" where
  "py_sorted_reverse f xs = rev (sort_key f (rev xs))"



subsection \<open>Sequences of method calls\<close>




section \<open>The batches as the specification words them\<close>




section \<open>Concrete inputs\<close>

text \<open>
  A model with only \<open>encode\<close>, which returns one two-component row per passage; a corpus
  of ten passages; a backend that answers every query with the single candidate \<open>"0"\<close>,
  and one that finds no candidate.
\<close>

definition ex_model :: "(string, int) model" where
  "ex_model =
     \<lparr>encode_corpus = None,
      encode = (\<lambda>batch batch_size. Inr (map (\<lambda>p. [int (length p), 7]) batch))\<rparr>"

definition ex_env :: "(string, int, int) env" where
  "ex_env =
     \<lparr>model_name_as_path = map (\<lambda>c. if c = CHR ''/'' then CHR ''_'' else c),
      load_passages = (\<lambda>filenames. [''p0'', ''p1'', ''p2'', ''p3'', ''p4'', ''p5'', ''p6'',
                                     ''p7'', ''p8'', ''p9'']),
      str_value = str_int,
      endpoint_match = (\<lambda>ep deployed_index_id queries k. [[MatchNeighbor ''0'' 1]])\<rparr>"


definition ex_client :: "(string, int) client" where
  "ex_client = init ex_env 2 ''a/b'' ex_model"

text \<open>A world with nothing in it, one where the index exists, one where the index and
  the endpoint exist.\<close>

definition ex_world :: "(string, int) world" where
  "ex_world =
     \<lparr>remote_indexes = [], remote_endpoints = [], files = Map.empty,
      bucket_objects = Map.empty, calls = []\<rparr>"

definition ex_world_index :: "(string, int) world" where
  "ex_world_index = ex_world\<lparr>remote_indexes := [''index_a_b'']\<rparr>"

definition ex_world_deployed :: "(string, int) world" where
  "ex_world_deployed = ex_world_index\<lparr>remote_endpoints := [''endpoint_a_b'']\<rparr>"

text \<open>A world where only the endpoint exists.\<close>

definition ex_world_endpoint :: "(string, int) world" where
  "ex_world_endpoint = ex_world\<lparr>remote_endpoints := [''endpoint_a_b'']\<rparr>"

section \<open>The constructor\<close>

lemma ex_client_names:
  "index_name ex_client = ''index_a_b''" "endpoint_name ex_client = ''endpoint_a_b''"
  by (simp_all add: ex_client_def init_def ex_env_def Let_def)

lemma ex_client_fields:
  "index ex_client = None" "endpoint ex_client = None" "doc ex_client = None"
  "model ex_client = ex_model" "dim ex_client = 2"
  by (simp_all add: ex_client_def init_def Let_def)

text \<open>
  C9. The constructor derives both resource names from the model path, the result of
  \<open>model_name_as_path\<close> on the model identifier: the index display name is \<open>index_\<close>
  followed by the model path, the endpoint display name is \<open>endpoint_\<close> followed by the
  same model path. Nothing else enters the names.
\<close>

theorem init_resource_names:
  "index_name (init e d model_name m) = ''index_'' @ model_name_as_path e model_name \<and>
   endpoint_name (init e d model_name m) = ''endpoint_'' @ model_name_as_path e model_name"
  by (simp add: init_def Let_def)

section \<open>Binding an index that exists\<close>

lemma index_exists_calls:
  "snd (index_exists c w) = log_call (ListIndexes (''display_name='' @ index_name c)) w"
  by (simp add: index_exists_def)

lemma index_exists_count:
  "fst (index_exists c w) \<noteq> 0 \<longleftrightarrow> index_name c \<in> set (remote_indexes w)"
  by (auto simp: index_exists_def filter_empty_conv)

lemma load_index_present:
  assumes "index_name c \<in> set (remote_indexes w)"
  shows "load_index e c w =
           (Inr (), c\<lparr>index := Some (MatchingEngineIndex (index_name c))\<rparr>,
            log_call (BindIndex (index_name c))
              (log_call (ListIndexes (''display_name='' @ index_name c)) w))"
  using assms index_exists_count [of c w] index_exists_calls [of c w]
  by (cases "index_exists c w") (simp add: load_index_def)

lemma load_index_absent:
  assumes "index_name c \<notin> set (remote_indexes w)"
  shows "load_index e c w =
           create_index e c (log_call (ListIndexes (''display_name='' @ index_name c)) w)"
  using assms index_exists_count [of c w] index_exists_calls [of c w]
  by (cases "index_exists c w") (simp add: load_index_def)

text \<open>
  C7. When an index resource with the configured display name exists, \<open>load_index\<close>
  returns normally; the calls it adds to the trace are one listing of the indexes filtered
  by that display name and the binding of the handle, in this order and nothing else (no
  create, no embedding, no upload); the handle is bound; the remote resources, the local
  files (the staging file among them) and the bucket are as before.
\<close>

theorem load_index_existing_binds_only:
  assumes "index_name c \<in> set (remote_indexes w)"
  shows "load_index e c w =
           (Inr (), c\<lparr>index := Some (MatchingEngineIndex (index_name c))\<rparr>,
            w\<lparr>calls := calls w @ [ListIndexes (''display_name='' @ index_name c),
                                  BindIndex (index_name c)]\<rparr>)"
  using load_index_present [OF assms, of e] by (simp add: log_call_def)

theorem load_index_existing_binds_only_witness:
  "index_name ex_client \<in> set (remote_indexes ex_world_index) \<and>
   load_index ex_env ex_client ex_world_index =
     (Inr (), ex_client\<lparr>index := Some (MatchingEngineIndex ''index_a_b'')\<rparr>,
      ex_world_index\<lparr>calls := [ListIndexes ''display_name=index_a_b'', BindIndex ''index_a_b'']\<rparr>)"
proof -
  have h: "index_name ex_client \<in> set (remote_indexes ex_world_index)"
    by (simp add: ex_client_names ex_world_index_def ex_world_def)
  show ?thesis
    using h load_index_existing_binds_only [OF h, of ex_env]
    by (simp add: ex_client_names ex_world_index_def ex_world_def)
qed

section \<open>What the methods leave unchanged\<close>

lemma log_call_simps [simp]:
  "calls (log_call x w) = calls w @ [x]"
  "remote_indexes (log_call x w) = remote_indexes w"
  "remote_endpoints (log_call x w) = remote_endpoints w"
  "files (log_call x w) = files w"
  "bucket_objects (log_call x w) = bucket_objects w"
  by (simp_all add: log_call_def)

lemma write_embeddings_to_tmp_file_frame [simp]:
  "calls (write_embeddings_to_tmp_file e embs idx w) = calls w"
  "remote_indexes (write_embeddings_to_tmp_file e embs idx w) = remote_indexes w"
  "remote_endpoints (write_embeddings_to_tmp_file e embs idx w) = remote_endpoints w"
  "bucket_objects (write_embeddings_to_tmp_file e embs idx w) = bucket_objects w"
  by (simp_all add: write_embeddings_to_tmp_file_def Let_def)

lemma write_batches_remote:
  "write_batches e c B ps bs t w = (r, w') \<Longrightarrow>
   remote_indexes w' = remote_indexes w \<and> remote_endpoints w' = remote_endpoints w"
proof (induction bs arbitrary: t w)
  case Nil
  then show ?case by simp
next
  case (Cons i rest)
  then show ?case
    by (fastforce simp: Let_def split: option.splits sum.splits prod.splits)
qed

lemma write_embeddings_client:
  "write_embeddings e B c w = (r, c', w') \<Longrightarrow>
   c' = c\<lparr>doc_map := map_of (py_enumerate (load_passages e [''corpus.jsonl'']))\<rparr>"
  by (auto simp: write_embeddings_def Let_def split: sum.splits prod.splits)

lemma write_embeddings_remote:
  "write_embeddings e B c w = (r, c', w') \<Longrightarrow>
   remote_indexes w' = remote_indexes w \<and> remote_endpoints w' = remote_endpoints w"
  by (auto simp: write_embeddings_def Let_def split: sum.splits prod.splits
           dest!: write_batches_remote)

lemma upload_embedding_file_remote:
  "upload_embedding_file w = (r, w') \<Longrightarrow>
   remote_indexes w' = remote_indexes w \<and> remote_endpoints w' = remote_endpoints w"
  by (auto simp: upload_embedding_file_def split: option.splits)

lemma create_index_client:
  "create_index e c w = (r, c', w') \<Longrightarrow>
   c' = c\<lparr>index := Some (MatchingEngineIndex (index_name c)),
          doc_map := map_of (py_enumerate (load_passages e [''corpus.jsonl'']))\<rparr>"
  by (auto simp: create_index_def Let_def split: sum.splits prod.splits option.splits
           dest!: write_embeddings_client)

lemma create_index_remote:
  "create_index e c w = (r, c', w') \<Longrightarrow>
   remote_indexes w' = remote_indexes w @ [index_name c] \<and> remote_endpoints w' = remote_endpoints w"
  by (auto simp: create_index_def Let_def split: sum.splits prod.splits option.splits
           dest!: write_embeddings_remote upload_embedding_file_remote)

lemma load_index_client:
  "load_index e c w = (r, c', w') \<Longrightarrow>
   c' = (if index_name c \<in> set (remote_indexes w)
         then c\<lparr>index := Some (MatchingEngineIndex (index_name c))\<rparr>
         else c\<lparr>index := Some (MatchingEngineIndex (index_name c)),
                doc_map := map_of (py_enumerate (load_passages e [''corpus.jsonl'']))\<rparr>)"
  by (auto simp: load_index_present load_index_absent dest!: create_index_client)

lemma load_index_remote:
  "load_index e c w = (r, c', w') \<Longrightarrow>
   remote_endpoints w' = remote_endpoints w \<and> index_name c \<in> set (remote_indexes w')"
  by (cases "index_name c \<in> set (remote_indexes w)")
     (auto simp: load_index_present load_index_absent dest!: create_index_remote)


section \<open>The endpoint and the query\<close>

lemma endpoint_exists_calls:
  "snd (endpoint_exists c w) = log_call (ListEndpoints (''display_name='' @ endpoint_name c)) w"
  by (simp add: endpoint_exists_def)

lemma endpoint_exists_count:
  "fst (endpoint_exists c w) \<noteq> 0 \<longleftrightarrow> endpoint_name c \<in> set (remote_endpoints w)"
  by (auto simp: endpoint_exists_def filter_empty_conv)

lemma load_endpoint_bound_index:
  assumes "index c = Some ih"
  shows "load_endpoint e c w =
     (let w2 = log_call (ListEndpoints (''display_name='' @ endpoint_name c)) w
      in if endpoint_name c \<in> set (remote_endpoints w)
         then (Inr (), c\<lparr>endpoint := Some (MatchingEngineIndexEndpoint (endpoint_name c))\<rparr>,
               log_call (BindEndpoint (endpoint_name c)) w2)
         else (case endpoint c of
                 None \<Rightarrow> (Inl AttributeError, c, w2)
               | Some eh \<Rightarrow>
                   (Inr (), c\<lparr>endpoint := Some eh\<rparr>,
                    log_call (DeployIndex eh ih (index_name c) (index_name c) MACHINE_TYPE 1 1) w2)))"
  using assms endpoint_exists_count [of c w] endpoint_exists_calls [of c w]
  by (cases "endpoint_exists c w") (auto simp: load_endpoint_def Let_def split: option.splits)

lemma load_endpoint_unbound_index:
  assumes "index c = None" "load_index e c w = (Inr u, c1, w1)"
  shows "load_endpoint e c w = load_endpoint e c1 w1"
proof -
  obtain ih where i: "index c1 = Some ih"
    using load_index_client [OF assms(2)] by (simp split: if_splits)
  show ?thesis using assms i by (simp add: load_endpoint_def)
qed


lemma load_index_fields:
  assumes "load_index e c w = (r, c', w')"
  shows "index c' = Some (MatchingEngineIndex (index_name c))" "endpoint c' = endpoint c"
    "index_name c' = index_name c" "endpoint_name c' = endpoint_name c" "doc c' = doc c"
    "model c' = model c" "dim c' = dim c"
  using load_index_client [OF assms] by (simp_all split: if_splits)





lemma py_sorted_reverse_Nil [simp]: "py_sorted_reverse f xs = [] \<longleftrightarrow> xs = []"
proof -
  have "length (py_sorted_reverse f xs) = length xs" by (simp add: py_sorted_reverse_def)
  then show ?thesis by (metis length_0_conv)
qed














lemma ex_world_deployed_fields:
  "remote_indexes ex_world_deployed = [''index_a_b'']"
  "remote_endpoints ex_world_deployed = [''endpoint_a_b'']"
  "calls ex_world_deployed = []"
  "remote_indexes ex_world_index = [''index_a_b'']"
  "remote_endpoints ex_world_index = []"
  "calls ex_world_index = []"
  by (simp_all add: ex_world_deployed_def ex_world_index_def ex_world_def)


section \<open>Concrete runs of \<open>search\<close>\<close>




section \<open>Deploying\<close>

lemma load_endpoint_deploys_from_bound_handle:
  assumes "index c = Some ih" "endpoint c = Some eh" "endpoint_name c \<notin> set (remote_endpoints w)"
  shows "load_endpoint e c w =
     (Inr (), c,
      w\<lparr>calls := calls w @ [ListEndpoints (''display_name='' @ endpoint_name c),
                            DeployIndex eh ih (index_name c) (index_name c) ''e2-standard-16'' 1 1]\<rparr>)"
  using assms by (simp add: load_endpoint_bound_index Let_def log_call_def MACHINE_TYPE_def)

text \<open>
  C2, at the inputs where it fails. The index handle and the endpoint handle are unbound
  (as on every fresh client) and no endpoint resource has the endpoint display name.
  \<open>load_endpoint\<close> runs \<open>load_index\<close>; when that returns, it lists the endpoints and then
  raises \<open>AttributeError\<close>: the message logged before the deployment reads
  \<open>self.endpoint.display_name\<close> on \<open>None\<close>. No \<open>deploy_index\<close> call is made and the endpoint
  handle stays unbound.
\<close>

theorem load_endpoint_unbound_raises:
  assumes "index c = None" "endpoint c = None" "load_index e c w = (Inr u, c1, w1)"
    "endpoint_name c \<notin> set (remote_endpoints w)"
  shows "load_endpoint e c w =
           (Inl AttributeError, c1,
            w1\<lparr>calls := calls w1 @ [ListEndpoints (''display_name='' @ endpoint_name c)]\<rparr>) \<and>
         endpoint c1 = None"
proof -
  note f = load_index_fields [OF assms(3)]
  have r: "endpoint_name c1 \<notin> set (remote_endpoints w1)"
    using load_index_remote [OF assms(3)] assms(4) f by simp
  show ?thesis
    unfolding load_endpoint_unbound_index [OF assms(1,3)]
    using r f assms(2) by (simp add: load_endpoint_bound_index [OF f(1)] Let_def log_call_def)
qed

theorem load_endpoint_unbound_raises_witness:
  "index ex_client = None \<and> endpoint ex_client = None \<and>
   load_index ex_env ex_client ex_world_index =
     (Inr (), ex_client\<lparr>index := Some (MatchingEngineIndex ''index_a_b'')\<rparr>,
      ex_world_index\<lparr>calls := [ListIndexes ''display_name=index_a_b'', BindIndex ''index_a_b'']\<rparr>) \<and>
   endpoint_name ex_client \<notin> set (remote_endpoints ex_world_index) \<and>
   load_endpoint ex_env ex_client ex_world_index =
     (Inl AttributeError, ex_client\<lparr>index := Some (MatchingEngineIndex ''index_a_b'')\<rparr>,
      ex_world_index\<lparr>calls := [ListIndexes ''display_name=index_a_b'', BindIndex ''index_a_b'',
                                ListEndpoints ''display_name=endpoint_a_b'']\<rparr>)"
proof -
  have l: "load_index ex_env ex_client ex_world_index =
     (Inr (), ex_client\<lparr>index := Some (MatchingEngineIndex ''index_a_b'')\<rparr>,
      ex_world_index\<lparr>calls := [ListIndexes ''display_name=index_a_b'', BindIndex ''index_a_b'']\<rparr>)"
    using load_index_present [of ex_client ex_world_index ex_env]
    by (simp add: ex_client_names ex_world_deployed_fields log_call_def)
  have n: "endpoint_name ex_client \<notin> set (remote_endpoints ex_world_index)"
    by (simp add: ex_client_names ex_world_deployed_fields)
  show ?thesis
    using l n load_endpoint_unbound_raises [OF ex_client_fields(1,2) l n]
    by (simp add: ex_client_fields ex_client_names)
qed

section \<open>Searching after binding an index that exists\<close>








section \<open>The staging records\<close>

lemma of_char_digit_char: "d < 10 \<Longrightarrow> (of_char (digit_char d) :: nat) = 48 + d"
  by (simp add: digit_char_def)

lemma digit_char_cases:
  "d < 10 \<Longrightarrow> digit_char d \<in> set ''0123456789''"
proof -
  have "\<forall>d \<in> set [0..<10]. digit_char d \<in> set ''0123456789''" by code_simp
  then show "d < 10 \<Longrightarrow> digit_char d \<in> set ''0123456789''" by simp
qed

lemma str_nat_digits: "set (str_nat n) \<subseteq> set ''0123456789''"
proof (induction n rule: str_nat.induct)
  case (1 n)
  show ?case
  proof (cases "n < 10")
    case True
    then show ?thesis using digit_char_cases [of n] by (subst str_nat.simps) simp
  next
    case False
    have "n mod 10 < 10" by simp
    then show ?thesis using 1 False digit_char_cases [of "n mod 10"]
      by (subst str_nat.simps) simp
  qed
qed

lemma decimal_value_snoc:
  "decimal_value (s @ [c]) = 10 * decimal_value s + (of_char c - 48)"
  by (simp add: decimal_value_def)

lemma decimal_value_str_nat: "decimal_value (str_nat n) = n"
proof (induction n rule: str_nat.induct)
  case (1 n)
  show ?case
  proof (cases "n < 10")
    case True
    then show ?thesis
      by (subst str_nat.simps) (simp add: decimal_value_def of_char_digit_char)
  next
    case False
    have "n mod 10 < 10" by simp
    then show ?thesis using 1 False
      by (subst str_nat.simps) (simp add: decimal_value_snoc of_char_digit_char)
  qed
qed

lemma json_escape_char_plain:
  "c \<in> set ''-0123456789'' \<Longrightarrow> json_escape_char c = [c]"
  by (auto simp: json_escape_char_def)

lemma str_int_chars: "set (str_int i) \<subseteq> set ''-0123456789''"
proof -
  have "set (str_nat n) \<subseteq> set ''-0123456789''" for n
    by (rule subset_trans [OF str_nat_digits]) (simp add: subset_insertI2)
  then show ?thesis by (simp add: str_int_def)
qed

lemma concat_map_singleton: "(\<And>x. x \<in> set xs \<Longrightarrow> f x = [x]) \<Longrightarrow> concat (map f xs) = xs"
  by (induction xs) simp_all

lemma json_string_str_int: "json_string (str_int i) = [CHR 0x22] @ str_int i @ [CHR 0x22]"
proof -
  have "concat (map json_escape_char (str_int i)) = str_int i"
    by (rule concat_map_singleton) (use str_int_chars [of i] json_escape_char_plain in blast)
  then show ?thesis by (simp add: json_string_def)
qed

lemma of_char_hex_digit:
  "d < 16 \<Longrightarrow> (of_char (hex_digit d) :: nat) = (if d < 10 then 48 + d else 87 + d)"
  by (simp add: hex_digit_def digit_char_def)

lemma hex_digit_not_newline: "d < 16 \<Longrightarrow> hex_digit d \<noteq> CHR 0x0A"
proof
  assume "d < 16" "hex_digit d = CHR 0x0A"
  then have "(if d < 10 then 48 + d else 87 + d) = (of_char (CHR 0x0A) :: nat)"
    using of_char_hex_digit [of d] by simp
  then show False by (simp split: if_splits)
qed

lemma json_escape_char_no_newline: "CHR 0x0A \<notin> set (json_escape_char c)"
proof -
  have "(of_char c :: nat) < 256" by simp
  then have "(of_char c :: nat) div 16 < 16" "(of_char c :: nat) mod 16 < 16" by presburger+
  then show ?thesis
    using hex_digit_not_newline [of "of_char c div 16"] hex_digit_not_newline [of "of_char c mod 16"]
    by (simp add: json_escape_char_def)
qed

lemma json_string_no_newline: "CHR 0x0A \<notin> set (json_string s)"
  using json_escape_char_no_newline by (simp add: json_string_def)

lemma join_avoids:
  "c \<notin> set sep \<Longrightarrow> (\<And>x. x \<in> set xs \<Longrightarrow> c \<notin> set x) \<Longrightarrow> c \<notin> set (join sep xs)"
  by (induction sep xs rule: join.induct) simp_all

lemma json_dumps_no_newline: "CHR 0x0A \<notin> set (json_dumps j)"
proof (induction j)
  case (JString s)
  then show ?case by (simp add: json_string_no_newline)
next
  case (JArray xs)
  have "CHR 0x0A \<notin> set (join '', '' (map json_dumps xs))"
    by (rule join_avoids) (use JArray in auto)
  then show ?case by simp
next
  case (JObject kvs)
  have "CHR 0x0A \<notin> set (json_string (fst kv) @ '': '' @ json_dumps (snd kv))" if "kv \<in> set kvs" for kv
    using JObject [of kv "snd kv"] that json_string_no_newline [of "fst kv"]
    by (cases kv) auto
  then have "CHR 0x0A \<notin> set (join '', '' (map (\<lambda>kv. json_string (fst kv) @ '': '' @ json_dumps (snd kv)) kvs))"
    by (intro join_avoids) auto
  then show ?case by simp
qed


lemma json_string_keys:
  \<open>json_string ''id'' = ''"id"''\<close> \<open>json_string ''embedding'' = ''"embedding"''\<close>
  by code_simp+

lemma embedding_record_text:
  \<open>json_dumps (embedding_record e i emb) =
     ''{"id": "'' @ str_int i @ ''", "embedding": ['' @
     join '', '' (map (\<lambda>value. json_string (str_value e value)) emb) @ '']}''\<close>
  by (simp add: embedding_record_def json_string_str_int json_string_keys comp_def)

lemma count_newlines_records:
  "length (filter (\<lambda>c. c = CHR 0x0A)
     (concat (map (\<lambda>(i, emb). json_dumps (embedding_record e i emb) @ [CHR 0x0A]) ps))) = length ps"
proof (induction ps)
  case Nil
  then show ?case by simp
next
  case (Cons p ps)
  obtain i emb where p: "p = (i, emb)" by (cases p) auto
  have "filter (\<lambda>c. c = CHR 0x0A) (json_dumps (embedding_record e i emb)) = []"
    using json_dumps_no_newline [of "embedding_record e i emb"] by (auto simp: filter_empty_conv)
  then show ?case using Cons p by simp
qed

lemma write_embeddings_to_tmp_file_files:
  "files (write_embeddings_to_tmp_file e embeddings indices w) =
     (files w)(TMP_FILE_PATH \<mapsto>
       (case files w TMP_FILE_PATH of None \<Rightarrow> [] | Some text \<Rightarrow> text) @
       concat (map (\<lambda>(i, emb). json_dumps (embedding_record e i emb) @ [CHR 0x0A])
                 (zip indices embeddings)))"
  by (simp add: write_embeddings_to_tmp_file_def Let_def)

text \<open>
  C8. The sink leaves everything but the staging file as it was and sets the staging
  file to its previous text (nothing, when the file was not there) followed by one line
  per pair of an index and an embedding, in order: the \<open>json.dumps\<close> text of the record and
  a newline. The text of a record is \<open>{"id": "I", "embedding": [E]}\<close>, where \<open>I\<close> is \<open>str\<close>
  of the index (for an ordinal, its decimal digits) and \<open>E\<close> lists, in the order of the
  embedding, the JSON strings of \<open>str\<close> of each component; it contains no newline, so the
  number of lines added is the number of pairs. Writing the same load a second time adds
  the same lines again after the first copy.
\<close>

theorem sink_appends_one_record_per_line:
  \<open>(let old = (case files w TMP_FILE_PATH of None \<Rightarrow> [] | Some text \<Rightarrow> text);
        added = concat (map (\<lambda>(i, emb). json_dumps (embedding_record e i emb) @ [CHR 0x0A])
                          (zip indices embeddings));
        w1 = write_embeddings_to_tmp_file e embeddings indices w;
        w2 = write_embeddings_to_tmp_file e embeddings indices w1
    in w1 = w\<lparr>files := (files w)(TMP_FILE_PATH \<mapsto> old @ added)\<rparr> \<and>
       files w2 TMP_FILE_PATH = Some (old @ added @ added) \<and>
       length (filter (\<lambda>c. c = CHR 0x0A) added) = min (length indices) (length embeddings)) \<and>
   json_dumps (embedding_record e i emb) =
     ''{"id": "'' @ str_int i @ ''", "embedding": ['' @
     join '', '' (map (\<lambda>value. json_string (str_value e value)) emb) @ '']}'' \<and>
   CHR 0x0A \<notin> set (json_dumps (embedding_record e i emb)) \<and>
   str_int (int n) = str_nat n \<and> set (str_nat n) \<subseteq> set ''0123456789'' \<and>
   decimal_value (str_nat n) = n\<close>
proof -
  have a: "write_embeddings_to_tmp_file e embeddings indices w =
             w\<lparr>files := files (write_embeddings_to_tmp_file e embeddings indices w)\<rparr>"
    by (simp add: write_embeddings_to_tmp_file_def Let_def)
  have b: "length (filter (\<lambda>c. c = CHR 0x0A)
             (concat (map (\<lambda>(i, emb). json_dumps (embedding_record e i emb) @ [CHR 0x0A])
                        (zip indices embeddings)))) = min (length indices) (length embeddings)"
    by (simp add: count_newlines_records)
  have c: "str_int (int n) = str_nat n" by (simp add: str_int_def)
  show ?thesis
    unfolding Let_def
    using a b c embedding_record_text [of e i emb] json_dumps_no_newline [of "embedding_record e i emb"]
      str_nat_digits [of n] decimal_value_str_nat [of n]
    by (simp add: write_embeddings_to_tmp_file_files)
qed

section \<open>The number of batches\<close>


lemma round_half_even_ge: "of_int k \<le> z \<Longrightarrow> k \<le> round_half_even z"
proof -
  assume "of_int k \<le> z"
  then have "k \<le> \<lfloor>z\<rfloor>" by (simp add: le_floor_iff)
  then show ?thesis by (auto simp: round_half_even_def Let_def)
qed








section \<open>Ranges and slices of the batches\<close>













section \<open>The run of the batches\<close>

lemma encode_batch_doc_map [simp]: "encode_batch (c\<lparr>doc_map := d\<rparr>) batch B = encode_batch c batch B"
  by (simp add: encode_batch_def split: option.splits)

lemma encode_batch_index [simp]: "encode_batch (c\<lparr>index := h\<rparr>) batch B = encode_batch c batch B"
  by (simp add: encode_batch_def split: option.splits)

lemma encode_call_doc_map [simp]: "encode_call (c\<lparr>doc_map := d\<rparr>) batch B = encode_call c batch B"
  by (simp add: encode_call_def split: option.splits)

lemma encode_call_index [simp]: "encode_call (c\<lparr>index := h\<rparr>) batch B = encode_call c batch B"
  by (simp add: encode_call_def split: option.splits)


















end
